theory Spec2Isabelle
  imports Main "HOL-Library.Word"
begin

section \<open>libcore_icu_NativeCollation.cpp: the JNI binding of the ICU collator\<close>

text \<open>
  The file binds three things: the JNI environment (string pins, global references, byte
  arrays), the ICU collation engine (the \<open>ucol_*\<close> functions) and the class
  \<open>CollationElements\<close> with the \<open>NativeCollation_*\<close> entry points. Only the last
  is code of the file; the first two are its environment. The environment is an explicit
  state (\<open>world\<close>) that every call takes and returns, the engine is a parameter
  (\<open>icu\<close>), and every JNI or ICU call that the source makes appends one event to a
  trace, so that the order of the calls can be stated.
\<close>

subsection \<open>Values\<close>

type_synonym jchar = "16 word"
type_synonym uint8 = "8 word"
type_synonym jint = "32 word"
type_synonym jlong = "64 word"

text \<open>A Java string object; only its UTF-16 contents matter here.\<close>

datatype jstring = JString (string_chars: "jchar list")

text \<open>
  \<open>const jchar*\<close> as returned by \<open>GetStringChars\<close>: the identity of the pin and the
  characters it points to. A nullable pointer is an \<open>option\<close>, \<open>None\<close> for \<open>NULL\<close>.
\<close>

datatype jchars = Pinned (pin_id: nat) (pinned_chars: "jchar list")

text \<open>A global reference made by \<open>NewGlobalRef\<close>.\<close>

datatype gref = GlobalRef (gref_id: nat)

text \<open>
  \<open>UErrorCode\<close>. The source names two of its values; every other code of the engine
  is \<open>U_OTHER_STATUS\<close>.
\<close>

datatype UErrorCode = U_ZERO_ERROR | U_ILLEGAL_ARGUMENT_ERROR | U_OTHER_STATUS int

text \<open>\<open>UCollationResult\<close> of \<open>ucol_strcoll\<close>, returned by the source as a \<open>jint\<close>.\<close>

datatype UCollationResult = UCOL_LESS | UCOL_EQUAL | UCOL_GREATER

fun result_jint :: "UCollationResult \<Rightarrow> jint" where
  "result_jint UCOL_LESS = - 1"
| "result_jint UCOL_EQUAL = 0"
| "result_jint UCOL_GREATER = 1"

text \<open>\<open>UCollator*\<close> is the \<open>jlong\<close> address itself (\<open>toCollator\<close> is a cast).\<close>

type_synonym UCollator = jlong

text \<open>\<open>UCollationElements*\<close>: the engine's iterator, an opaque identity.\<close>

type_synonym UCollationElements = nat

subsection \<open>The class CollationElements\<close>

record CollationElements =
  mElements :: "UCollationElements option"
  mString :: "gref option"
  mChars :: "jchars option"

text \<open>The constructor: all three members \<open>NULL\<close>.\<close>

definition CollationElements_new :: CollationElements where
  "CollationElements_new = \<lparr>mElements = None, mString = None, mChars = None\<rparr>"

definition get :: "CollationElements \<Rightarrow> UCollationElements option" where
  "get ce = mElements ce"

subsection \<open>Events and the environment\<close>

datatype event =
    Ev_GetStringChars jstring "jchars option"
  | Ev_ReleaseStringChars jchars
  | Ev_NewGlobalRef jstring "gref option"
  | Ev_DeleteGlobalRef "gref option"
  | Ev_ucol_openElements UCollator jchars nat "UCollationElements option" UErrorCode
  | Ev_ucol_setText UCollationElements jchars nat UErrorCode
  | Ev_ucol_closeElements UCollationElements
  | Ev_ucol_strcoll UCollator jchars nat jchars nat
  | Ev_ucol_getSortKey UCollator jchars nat nat
  | Ev_GetStringUTFChars jstring "jchars option"
  | Ev_ReleaseStringUTFChars jchars
  | Ev_ucol_open jchars
  | Ev_ucol_openRules jchars nat jint jint
  | Ev_new_bytes nat
  | Ev_NewByteArray nat
  | Ev_new_CollationElements jlong
  | Ev_delete_CollationElements jlong
  | Ev_maybeThrowIcuException string UErrorCode

text \<open>
  The environment. \<open>GetStringChars\<close> and \<open>NewGlobalRef\<close> may fail (they return
  \<open>NULL\<close>); which calls fail is not decided by the file, so the environment carries a
  schedule for each: the head of the list says whether the next call succeeds, and a call
  on an empty schedule succeeds. A string that cannot be read (a null reference, or no
  memory for the copy) is a \<open>False\<close> at the head of \<open>pin_schedule\<close>.
  \<open>live_pins\<close> and \<open>live_grefs\<close> are the pins and global references acquired and not
  yet released, \<open>objects\<close> the \<open>CollationElements\<close> objects allocated with \<open>new\<close> and
  not yet deleted, \<open>uninit\<close> the contents of memory that was never written.
\<close>

record world =
  pin_schedule :: "bool list"
  gref_schedule :: "bool list"
  next_id :: nat
  live_pins :: "nat list"
  live_grefs :: "nat list"
  objects :: "jlong \<Rightarrow> CollationElements option"
  next_object :: jlong
  uninit :: "nat \<Rightarrow> uint8"
  trace :: "event list"

definition emit :: "event \<Rightarrow> world \<Rightarrow> world" where
  "emit e w = w\<lparr>trace := trace w @ [e]\<rparr>"

definition next_succeeds :: "bool list \<Rightarrow> bool" where
  "next_succeeds sched = (case sched of [] \<Rightarrow> True | b # _ \<Rightarrow> b)"

definition GetStringChars :: "world \<Rightarrow> jstring \<Rightarrow> jchars option \<times> world" where
  "GetStringChars w s =
     (if next_succeeds (pin_schedule w) then
        (let p = Pinned (next_id w) (string_chars s) in
         (Some p, emit (Ev_GetStringChars s (Some p))
                    (w\<lparr>pin_schedule := tl (pin_schedule w), next_id := Suc (next_id w),
                       live_pins := next_id w # live_pins w\<rparr>)))
      else (None, emit (Ev_GetStringChars s None) (w\<lparr>pin_schedule := tl (pin_schedule w)\<rparr>)))"

definition ReleaseStringChars :: "world \<Rightarrow> jchars \<Rightarrow> world" where
  "ReleaseStringChars w p =
     emit (Ev_ReleaseStringChars p) (w\<lparr>live_pins := remove1 (pin_id p) (live_pins w)\<rparr>)"

definition NewGlobalRef :: "world \<Rightarrow> jstring \<Rightarrow> gref option \<times> world" where
  "NewGlobalRef w s =
     (if next_succeeds (gref_schedule w) then
        (let g = GlobalRef (next_id w) in
         (Some g, emit (Ev_NewGlobalRef s (Some g))
                    (w\<lparr>gref_schedule := tl (gref_schedule w), next_id := Suc (next_id w),
                       live_grefs := next_id w # live_grefs w\<rparr>)))
      else (None, emit (Ev_NewGlobalRef s None) (w\<lparr>gref_schedule := tl (gref_schedule w)\<rparr>)))"

text \<open>\<open>DeleteGlobalRef(NULL)\<close> is a call that deletes nothing.\<close>

definition DeleteGlobalRef :: "world \<Rightarrow> gref option \<Rightarrow> world" where
  "DeleteGlobalRef w g =
     emit (Ev_DeleteGlobalRef g)
       (case g of None \<Rightarrow> w
        | Some r \<Rightarrow> w\<lparr>live_grefs := remove1 (gref_id r) (live_grefs w)\<rparr>)"

definition GetStringLength :: "jstring \<Rightarrow> nat" where
  "GetStringLength s = length (string_chars s)"

subsection \<open>The engine\<close>

text \<open>
  The ICU functions are not code of the file. Each is a field of \<open>icu\<close>: what the
  engine answers for the arguments the source passes. \<open>sortKeyBytes\<close> is the complete
  sort key of a text under a collator.
\<close>

record icu =
  icu_openElements :: "UCollator \<Rightarrow> jchar list \<Rightarrow> nat \<Rightarrow> UCollationElements option \<times> UErrorCode"
  icu_setText :: "UCollationElements \<Rightarrow> jchar list \<Rightarrow> nat \<Rightarrow> UErrorCode"
  icu_strcoll :: "UCollator \<Rightarrow> jchar list \<Rightarrow> jchar list \<Rightarrow> UCollationResult"
  sortKeyBytes :: "UCollator \<Rightarrow> jchar list \<Rightarrow> uint8 list"
  icu_open :: "jchar list \<Rightarrow> UCollator \<times> UErrorCode"
  icu_openRules :: "jchar list \<Rightarrow> jint \<Rightarrow> jint \<Rightarrow> UCollator \<times> UErrorCode"

definition ucol_openElements ::
  "icu \<Rightarrow> world \<Rightarrow> UCollator \<Rightarrow> jchars \<Rightarrow> nat \<Rightarrow> (UCollationElements option \<times> UErrorCode) \<times> world" where
  "ucol_openElements eng w collator chars len =
     (let r = icu_openElements eng collator (pinned_chars chars) len
      in (r, emit (Ev_ucol_openElements collator chars len (fst r) (snd r)) w))"

definition ucol_setText ::
  "icu \<Rightarrow> world \<Rightarrow> UCollationElements \<Rightarrow> jchars \<Rightarrow> nat \<Rightarrow> UErrorCode \<times> world" where
  "ucol_setText eng w e chars len =
     (let st = icu_setText eng e (pinned_chars chars) len
      in (st, emit (Ev_ucol_setText e chars len st) w))"

definition ucol_closeElements :: "world \<Rightarrow> UCollationElements \<Rightarrow> world" where
  "ucol_closeElements w e = emit (Ev_ucol_closeElements e) w"

subsection \<open>CollationElements::release and CollationElements::start\<close>

definition release :: "world \<Rightarrow> CollationElements \<Rightarrow> bool \<Rightarrow> world \<times> CollationElements" where
  "release w ce closeCollator =
     (let w1 = (case mElements ce of
                  Some e \<Rightarrow> if closeCollator then ucol_closeElements w e else w
                | None \<Rightarrow> w)
      in case mChars ce of
           Some c \<Rightarrow>
             (let w2 = ReleaseStringChars w1 c;
                  w3 = DeleteGlobalRef w2 (mString ce)
              in (w3, ce\<lparr>mChars := None, mString := None\<rparr>))
         | None \<Rightarrow> (w1, ce))"

definition start ::
  "icu \<Rightarrow> world \<Rightarrow> CollationElements \<Rightarrow> jstring \<Rightarrow> UCollator \<Rightarrow>
     UErrorCode \<times> world \<times> CollationElements" where
  "start eng w ce string collator =
     (let (w1, ce1) = release w ce False;
          (chars, w2) = GetStringChars w1 string;
          ce2 = ce1\<lparr>mChars := chars\<rparr>
      in case chars of
           Some c \<Rightarrow>
             (let (g, w3) = NewGlobalRef w2 string;
                  ce3 = ce2\<lparr>mString := g\<rparr>;
                  len = GetStringLength string
              in case mElements ce3 of
                   None \<Rightarrow>
                     (let ((e, status), w4) = ucol_openElements eng w3 collator c len
                      in (status, w4, ce3\<lparr>mElements := e\<rparr>))
                 | Some e \<Rightarrow>
                     (let (status, w4) = ucol_setText eng w3 e c len
                      in (status, w4, ce3)))
         | None \<Rightarrow> (U_ILLEGAL_ARGUMENT_ERROR, w2, ce2))"

subsection \<open>Scoped pins of the entry points\<close>

text \<open>
  Modelled from the spec: \<open>ScopedStringChars.h\<close> and \<open>ScopedUtfChars.h\<close> are not in
  the file. The spec calls such a string readable or unreadable and its pin a resource
  that is released when the call ends: the constructor pins the string (\<open>get()\<close> is
  \<open>NULL\<close> when that fails), \<open>size()\<close> is the string's length, and the destructor
  releases the pin if there is one. The UTF-8 form that \<open>ScopedUtfChars\<close> hands to the
  engine is represented by the characters of the string.
\<close>

definition ScopedStringChars :: "world \<Rightarrow> jstring \<Rightarrow> jchars option \<times> world" where
  "ScopedStringChars w s = GetStringChars w s"

definition ScopedStringChars_size :: "jchars \<Rightarrow> nat" where
  "ScopedStringChars_size c = length (pinned_chars c)"

definition ScopedStringChars_dtor :: "world \<Rightarrow> jchars option \<Rightarrow> world" where
  "ScopedStringChars_dtor w p = (case p of None \<Rightarrow> w | Some c \<Rightarrow> ReleaseStringChars w c)"

definition ScopedUtfChars :: "world \<Rightarrow> jstring \<Rightarrow> jchars option \<times> world" where
  "ScopedUtfChars w s =
     (if next_succeeds (pin_schedule w) then
        (let p = Pinned (next_id w) (string_chars s) in
         (Some p, emit (Ev_GetStringUTFChars s (Some p))
                    (w\<lparr>pin_schedule := tl (pin_schedule w), next_id := Suc (next_id w),
                       live_pins := next_id w # live_pins w\<rparr>)))
      else (None, emit (Ev_GetStringUTFChars s None) (w\<lparr>pin_schedule := tl (pin_schedule w)\<rparr>)))"

definition ScopedUtfChars_dtor :: "world \<Rightarrow> jchars option \<Rightarrow> world" where
  "ScopedUtfChars_dtor w p =
     (case p of None \<Rightarrow> w
      | Some c \<Rightarrow> emit (Ev_ReleaseStringUTFChars c)
                    (w\<lparr>live_pins := remove1 (pin_id c) (live_pins w)\<rparr>))"

text \<open>
  \<open>maybeThrowIcuException\<close> is declared in \<open>IcuUtilities.h\<close>; the call and the status
  it is given are recorded.
\<close>

definition maybeThrowIcuException :: "world \<Rightarrow> string \<Rightarrow> UErrorCode \<Rightarrow> world" where
  "maybeThrowIcuException w function status = emit (Ev_maybeThrowIcuException function status) w"

subsection \<open>Objects behind integer handles\<close>

text \<open>
  \<open>toCollationElements\<close> casts the \<open>jlong\<close> to a pointer, and the entry points
  dereference it. The class objects live in \<open>objects\<close>; dereferencing an address that
  holds no object (never allocated, or deleted) is undefined in C++ and is the value
  \<open>Inl Dangling_handle\<close> here.
\<close>

datatype fault = Dangling_handle

definition new_CollationElements :: "world \<Rightarrow> jlong \<times> world" where
  "new_CollationElements w =
     (let a = next_object w
      in (a, emit (Ev_new_CollationElements a)
               (w\<lparr>objects := (objects w)(a \<mapsto> CollationElements_new), next_object := a + 1\<rparr>)))"

definition delete_CollationElements :: "world \<Rightarrow> jlong \<Rightarrow> world" where
  "delete_CollationElements w a =
     emit (Ev_delete_CollationElements a) (w\<lparr>objects := (objects w)(a := None)\<rparr>)"

subsection \<open>The entry points\<close>

definition NativeCollation_closeElements :: "world \<Rightarrow> jlong \<Rightarrow> fault + world" where
  "NativeCollation_closeElements w address =
     (case objects w address of
        None \<Rightarrow> Inl Dangling_handle
      | Some elements \<Rightarrow>
          (let (w1, elements1) = release w elements True
           in Inr (delete_CollationElements w1 address)))"

definition ucol_strcoll ::
  "icu \<Rightarrow> world \<Rightarrow> UCollator \<Rightarrow> jchars \<Rightarrow> nat \<Rightarrow> jchars \<Rightarrow> nat \<Rightarrow> UCollationResult \<times> world" where
  "ucol_strcoll eng w collator l llen r rlen =
     (icu_strcoll eng collator (take llen (pinned_chars l)) (take rlen (pinned_chars r)),
      emit (Ev_ucol_strcoll collator l llen r rlen) w)"

definition NativeCollation_compare ::
  "icu \<Rightarrow> world \<Rightarrow> jlong \<Rightarrow> jstring \<Rightarrow> jstring \<Rightarrow> jint \<times> world" where
  "NativeCollation_compare eng w address javaLhs javaRhs =
     (let (lhs, w1) = ScopedStringChars w javaLhs
      in case lhs of
           None \<Rightarrow> (0, ScopedStringChars_dtor w1 lhs)
         | Some l \<Rightarrow>
             (let (rhs, w2) = ScopedStringChars w1 javaRhs
              in case rhs of
                   None \<Rightarrow> (0, ScopedStringChars_dtor (ScopedStringChars_dtor w2 rhs) lhs)
                 | Some r \<Rightarrow>
                     (let (res, w3) = ucol_strcoll eng w2 address l (ScopedStringChars_size l)
                                        r (ScopedStringChars_size r)
                      in (result_jint res,
                          ScopedStringChars_dtor (ScopedStringChars_dtor w3 rhs) lhs))))"

definition NativeCollation_getCollationElementIterator ::
  "icu \<Rightarrow> world \<Rightarrow> jlong \<Rightarrow> jstring \<Rightarrow> jlong \<times> world" where
  "NativeCollation_getCollationElementIterator eng w address javaSource =
     (let (source, w1) = ScopedStringChars w javaSource
      in case source of
           None \<Rightarrow> (- 1, ScopedStringChars_dtor w1 source)
         | Some src \<Rightarrow>
             (let (ce, w2) = new_CollationElements w1;
                  (status, w3, obj) = start eng w2 CollationElements_new javaSource address;
                  w4 = w3\<lparr>objects := (objects w3)(ce \<mapsto> obj)\<rparr>;
                  w5 = maybeThrowIcuException w4 ''ucol_openElements'' status
              in if status = U_ZERO_ERROR then (ce, ScopedStringChars_dtor w5 source)
                 else (0, ScopedStringChars_dtor (delete_CollationElements w5 ce) source)))"

definition NativeCollation_setText ::
  "icu \<Rightarrow> world \<Rightarrow> jlong \<Rightarrow> jstring \<Rightarrow> fault + world" where
  "NativeCollation_setText eng w address javaSource =
     (let (source, w1) = ScopedStringChars w javaSource
      in case source of
           None \<Rightarrow> Inr (ScopedStringChars_dtor w1 source)
         | Some src \<Rightarrow>
             (case objects w1 address of
                None \<Rightarrow> Inl Dangling_handle
              | Some obj \<Rightarrow>
                  (let (status, w2, obj1) = start eng w1 obj javaSource 0;
                       w3 = w2\<lparr>objects := (objects w2)(address \<mapsto> obj1)\<rparr>;
                       w4 = maybeThrowIcuException w3 ''ucol_setText'' status
                   in Inr (ScopedStringChars_dtor w4 source))))"

definition ucol_open :: "icu \<Rightarrow> world \<Rightarrow> jchars \<Rightarrow> (UCollator \<times> UErrorCode) \<times> world" where
  "ucol_open eng w locale = (icu_open eng (pinned_chars locale), emit (Ev_ucol_open locale) w)"

definition NativeCollation_openCollator :: "icu \<Rightarrow> world \<Rightarrow> jstring \<Rightarrow> jlong \<times> world" where
  "NativeCollation_openCollator eng w javaLocaleName =
     (let (localeChars, w1) = ScopedUtfChars w javaLocaleName
      in case localeChars of
           None \<Rightarrow> (0, ScopedUtfChars_dtor w1 localeChars)
         | Some loc \<Rightarrow>
             (let ((c, status), w2) = ucol_open eng w1 loc;
                  w3 = maybeThrowIcuException w2 ''ucol_open'' status
              in (c, ScopedUtfChars_dtor w3 localeChars)))"

definition ucol_openRules ::
  "icu \<Rightarrow> world \<Rightarrow> jchars \<Rightarrow> nat \<Rightarrow> jint \<Rightarrow> jint \<Rightarrow> (UCollator \<times> UErrorCode) \<times> world" where
  "ucol_openRules eng w rules len mode strength =
     (icu_openRules eng (take len (pinned_chars rules)) mode strength,
      emit (Ev_ucol_openRules rules len mode strength) w)"

definition NativeCollation_openCollatorFromRules ::
  "icu \<Rightarrow> world \<Rightarrow> jstring \<Rightarrow> jint \<Rightarrow> jint \<Rightarrow> jlong \<times> world" where
  "NativeCollation_openCollatorFromRules eng w javaRules mode strength =
     (let (rules, w1) = ScopedStringChars w javaRules
      in case rules of
           None \<Rightarrow> (- 1, ScopedStringChars_dtor w1 rules)
         | Some r \<Rightarrow>
             (let ((c, status), w2) =
                    ucol_openRules eng w1 r (ScopedStringChars_size r) mode strength;
                  w3 = maybeThrowIcuException w2 ''ucol_openRules'' status
              in (c, ScopedStringChars_dtor w3 rules)))"

subsection \<open>The sort key\<close>

text \<open>
  Modelled from the spec: \<open>ucol_getSortKey\<close> is the engine's and not in the file. The
  spec: the encoder is given a buffer and its capacity, and \<open>the first call reports the
  needed size even on overflow\<close>. So the call writes the key, cut at the capacity, to the
  front of the buffer, leaves the rest of the buffer as it was, and returns the length of
  the whole key.
\<close>

definition ucol_getSortKey ::
  "icu \<Rightarrow> world \<Rightarrow> UCollator \<Rightarrow> jchars \<Rightarrow> nat \<Rightarrow> uint8 list \<Rightarrow> nat \<Rightarrow>
     (uint8 list \<times> nat) \<times> world" where
  "ucol_getSortKey eng w collator src len buf cap =
     (let key = sortKeyBytes eng collator (take len (pinned_chars src));
          written = take cap key
      in ((written @ drop (length written) buf, length key),
          emit (Ev_ucol_getSortKey collator src len cap) w))"

text \<open>A buffer of \<open>n\<close> bytes that nothing has written yet.\<close>

definition fresh_bytes :: "world \<Rightarrow> nat \<Rightarrow> uint8 list" where
  "fresh_bytes w n = map (uninit w) [0..<n]"

definition new_bytes :: "world \<Rightarrow> nat \<Rightarrow> uint8 list \<times> world" where
  "new_bytes w n = (fresh_bytes w n, emit (Ev_new_bytes n) w)"

text \<open>
  \<open>NewByteArray\<close> followed by \<open>SetByteArrayRegion(result, 0, n, buf)\<close>: the Java array
  holds the first \<open>n\<close> bytes of the buffer. The source does not test the array for
  \<open>NULL\<close>, and the allocation is taken to succeed.
\<close>

definition NewByteArray_from :: "world \<Rightarrow> nat \<Rightarrow> uint8 list \<Rightarrow> uint8 list \<times> world" where
  "NewByteArray_from w n buf = (take n buf, emit (Ev_NewByteArray n) w)"

definition NativeCollation_getSortKey ::
  "icu \<Rightarrow> world \<Rightarrow> jlong \<Rightarrow> jstring \<Rightarrow> uint8 list option \<times> world" where
  "NativeCollation_getSortKey eng w address javaSource =
     (let (source, w1) = ScopedStringChars w javaSource
      in case source of
           None \<Rightarrow> (None, ScopedStringChars_dtor w1 source)
         | Some src \<Rightarrow>
             (let collator = address;
                  byteArray = fresh_bytes w1 128;
                  ((usedByteArray, byteArraySize), w2) =
                     ucol_getSortKey eng w1 collator src (ScopedStringChars_size src)
                       byteArray (128 - 1);
                  ((usedByteArray1, byteArraySize1), w3) =
                     (if byteArraySize > 128 - 1 then
                        (let (largerByteArray, w2a) = new_bytes w2 (byteArraySize + 1)
                         in ucol_getSortKey eng w2a collator src (ScopedStringChars_size src)
                              largerByteArray byteArraySize)
                      else ((usedByteArray, byteArraySize), w2))
              in if byteArraySize1 = 0 then (None, ScopedStringChars_dtor w3 source)
                 else (let (result, w4) = NewByteArray_from w3 byteArraySize1 usedByteArray1
                       in (Some result, ScopedStringChars_dtor w4 source))))"

subsection \<open>Reading the trace\<close>

text \<open>The events that a call added: the trace of the world after it, beyond the one before.\<close>

definition events_since :: "world \<Rightarrow> world \<Rightarrow> event list" where
  "events_since w w' = drop (length (trace w)) (trace w')"

text \<open>Calls on the engine's iterator.\<close>

fun is_engine_call :: "event \<Rightarrow> bool" where
  "is_engine_call (Ev_ucol_openElements _ _ _ _ _) = True"
| "is_engine_call (Ev_ucol_setText _ _ _ _) = True"
| "is_engine_call (Ev_ucol_closeElements _) = True"
| "is_engine_call _ = False"

text \<open>A pin that was obtained, or a request for a global reference.\<close>

fun acquires :: "event \<Rightarrow> bool" where
  "acquires (Ev_GetStringChars _ (Some _)) = True"
| "acquires (Ev_NewGlobalRef _ _) = True"
| "acquires _ = False"

subsection \<open>A small engine and environment to run the definitions on\<close>

fun demo_strcoll :: "jchar list \<Rightarrow> jchar list \<Rightarrow> UCollationResult" where
  "demo_strcoll [] [] = UCOL_EQUAL"
| "demo_strcoll [] (y # ys) = UCOL_LESS"
| "demo_strcoll (x # xs) [] = UCOL_GREATER"
| "demo_strcoll (x # xs) (y # ys) =
     (if x < y then UCOL_LESS else if y < x then UCOL_GREATER else demo_strcoll xs ys)"

text \<open>Two bytes for every character, the high byte first; the empty text has the empty key.\<close>

definition demo_key :: "jchar list \<Rightarrow> uint8 list" where
  "demo_key cs = concat (map (\<lambda>x. [ucast (drop_bit 8 x), ucast x]) cs)"

definition demo_icu :: icu where
  "demo_icu =
     \<lparr>icu_openElements = (\<lambda>c cs n. if c = 0 then (None, U_ILLEGAL_ARGUMENT_ERROR)
                                   else (Some (unat c), U_ZERO_ERROR)),
      icu_setText = (\<lambda>e cs n. U_ZERO_ERROR),
      icu_strcoll = (\<lambda>c a b. demo_strcoll a b),
      sortKeyBytes = (\<lambda>c cs. demo_key cs),
      icu_open = (\<lambda>loc. (1, U_ZERO_ERROR)),
      icu_openRules = (\<lambda>rules mode strength. (2, U_ZERO_ERROR))\<rparr>"

definition world0 :: world where
  "world0 =
     \<lparr>pin_schedule = [], gref_schedule = [], next_id = 0, live_pins = [], live_grefs = [],
      objects = (\<lambda>a. None), next_object = 4096, uninit = (\<lambda>i. 0), trace = []\<rparr>"

text \<open>
  A fresh iterator started on the text \<open>ab\<close> with collator 1, in an environment whose
  second pin will fail.
\<close>

definition bound_run :: "UErrorCode \<times> world \<times> CollationElements" where
  "bound_run = start demo_icu (world0\<lparr>pin_schedule := [True, False]\<rparr>) CollationElements_new
                 (JString [97, 98]) 1"

text \<open>
  The environment after that run, with the iterator's object behind the handle 4096; its
  next pin fails.
\<close>

definition bound_world :: world where
  "bound_world =
     (fst (snd bound_run))\<lparr>objects := (\<lambda>a. if a = 4096 then Some (snd (snd bound_run)) else None)\<rparr>"



subsection \<open>The pin discipline, read off the trace\<close>

text \<open>
  What one iterator holds: its pin and its global reference. \<open>audit_step\<close> follows one
  event: a pin may be obtained only while none is held, a release must name the pin that is
  held, a global reference may be requested only while none is held, and a deletion must
  name the reference that is held (\<open>NULL\<close> when none is). \<open>audit\<close> follows a
  trace and is \<open>None\<close> as soon as one event breaks the rule; otherwise it gives what
  is held at the end. A trace that \<open>audit\<close> accepts never has two pins, or two global
  references, held at once.
\<close>

type_synonym holding = "jchars option \<times> gref option"

fun audit_step :: "holding \<Rightarrow> event \<Rightarrow> holding option" where
  "audit_step (p, g) (Ev_GetStringChars s (Some c)) = (if p = None then Some (Some c, g) else None)"
| "audit_step (p, g) (Ev_ReleaseStringChars c) = (if p = Some c then Some (None, g) else None)"
| "audit_step (p, g) (Ev_NewGlobalRef s r) = (if g = None then Some (p, r) else None)"
| "audit_step (p, g) (Ev_DeleteGlobalRef r) = (if g = r then Some (p, None) else None)"
| "audit_step h _ = Some h"

fun audit :: "holding \<Rightarrow> event list \<Rightarrow> holding option" where
  "audit h [] = Some h"
| "audit h (e # es) = (case audit_step h e of None \<Rightarrow> None | Some h' \<Rightarrow> audit h' es)"

text \<open>
  The operations on one \<open>CollationElements\<close> object: \<open>start\<close> with a collator,
  \<open>setText\<close> (the entry point calls \<open>start\<close> with a \<open>NULL\<close> collator), and
  close (the entry point calls \<open>release(env, true)\<close>).
\<close>

datatype iterator_op = Op_start jstring UCollator | Op_setText jstring | Op_close

fun apply_op :: "icu \<Rightarrow> world \<times> CollationElements \<Rightarrow> iterator_op \<Rightarrow> world \<times> CollationElements" where
  "apply_op eng (w, ce) (Op_start s c) = snd (start eng w ce s c)"
| "apply_op eng (w, ce) (Op_setText s) = snd (start eng w ce s 0)"
| "apply_op eng (w, ce) Op_close = release w ce True"

definition run_ops :: "icu \<Rightarrow> world \<times> CollationElements \<Rightarrow> iterator_op list \<Rightarrow> world \<times> CollationElements" where
  "run_ops eng st ops = foldl (apply_op eng) st ops"

text \<open>The identities of the pin and the global reference that the members point to.\<close>

definition held_ids :: "CollationElements \<Rightarrow> nat list \<times> nat list" where
  "held_ids ce = (case mChars ce of Some c \<Rightarrow> [pin_id c] | None \<Rightarrow> [],
                  case mString ce of Some g \<Rightarrow> [gref_id g] | None \<Rightarrow> [])"

text \<open>
  The invariant of the proof. \<open>step_ok\<close>: one call extends the trace by events that
  the audit accepts from what the object held to what it holds, and changes the live pins
  and references accordingly. \<open>disciplined\<close>: the same for a whole run from \<open>w0\<close>.
\<close>

definition step_ok :: "world \<Rightarrow> CollationElements \<Rightarrow> world \<Rightarrow> CollationElements \<Rightarrow> bool" where
  "step_ok w ce w' ce' \<longleftrightarrow>
     (\<exists>new. trace w' = trace w @ new
        \<and> audit (mChars ce, mString ce) new = Some (mChars ce', mString ce'))
   \<and> (mChars ce' = None \<longrightarrow> mString ce' = None)
   \<and> (\<forall>L. live_pins w = fst (held_ids ce) @ L \<longrightarrow> live_pins w' = fst (held_ids ce') @ L)
   \<and> (\<forall>L. live_grefs w = snd (held_ids ce) @ L \<longrightarrow> live_grefs w' = snd (held_ids ce') @ L)"

definition disciplined :: "world \<Rightarrow> world \<times> CollationElements \<Rightarrow> bool" where
  "disciplined w0 st \<longleftrightarrow>
     (\<exists>evs. trace (fst st) = trace w0 @ evs
        \<and> audit (None, None) evs = Some (mChars (snd st), mString (snd st)))
   \<and> (mChars (snd st) = None \<longrightarrow> mString (snd st) = None)
   \<and> live_pins (fst st) = fst (held_ids (snd st)) @ live_pins w0
   \<and> live_grefs (fst st) = snd (held_ids (snd st)) @ live_grefs w0"

text \<open>
  An iterator opened through the entry point on the text \<open>ab\<close> with collator 1, the
  object it then has, and the result of closing it once.
\<close>

definition opened :: "jlong \<times> world" where
  "opened = NativeCollation_getCollationElementIterator demo_icu world0 1 (JString [97, 98])"

definition opened_object :: CollationElements where
  "opened_object = \<lparr>mElements = Some 1, mString = Some (GlobalRef 2), mChars = Some (Pinned 1 [97, 98])\<rparr>"

definition closed_once :: "fault + world" where
  "closed_once = NativeCollation_closeElements (snd opened) (fst opened)"

subsection \<open>Sort keys: reading the trace, and the ordering the spec asks of the engine\<close>

text \<open>
  The capacities given to \<open>ucol_getSortKey\<close> and the sizes of the byte buffers
  allocated with \<open>new\<close>, in the order of the calls.
\<close>

fun encode_cap :: "event \<Rightarrow> nat option" where
  "encode_cap (Ev_ucol_getSortKey _ _ _ cap) = Some cap"
| "encode_cap _ = None"

fun heap_alloc :: "event \<Rightarrow> nat option" where
  "heap_alloc (Ev_new_bytes n) = Some n"
| "heap_alloc _ = None"

text \<open>Comparison of two byte sequences, byte by byte, the bytes unsigned.\<close>

fun bytes_compare :: "uint8 list \<Rightarrow> uint8 list \<Rightarrow> UCollationResult" where
  "bytes_compare [] [] = UCOL_EQUAL"
| "bytes_compare [] (y # ys) = UCOL_LESS"
| "bytes_compare (x # xs) [] = UCOL_GREATER"
| "bytes_compare (x # xs) (y # ys) =
     (if x < y then UCOL_LESS else if y < x then UCOL_GREATER else bytes_compare xs ys)"

text \<open>
  Modelled from the spec: the engine's collation algorithm (\<open>ucol_getSortKey\<close>,
  \<open>ucol_strcoll\<close>) is not in the file. The spec about a sort key: for two strings A, B
  and a fixed collator C, \<open>sortKey(C,A) <binary-compares> sortKey(C,B)\<close> has the same
  relative order as \<open>compare(C,A,B)\<close>. For an engine, a collator and two texts:
\<close>

definition sort_key_orders_as_strcoll :: "icu \<Rightarrow> UCollator \<Rightarrow> jchar list \<Rightarrow> jchar list \<Rightarrow> bool" where
  "sort_key_orders_as_strcoll eng c a b \<longleftrightarrow>
     bytes_compare (sortKeyBytes eng c a) (sortKeyBytes eng c b) = icu_strcoll eng c a b"

section \<open>Properties\<close>

subsection \<open>Basic facts\<close>

lemma release_fst:
  "pin_schedule (fst (release w ce b)) = pin_schedule w"
  "gref_schedule (fst (release w ce b)) = gref_schedule w"
  "next_id (fst (release w ce b)) = next_id w"
  "objects (fst (release w ce b)) = objects w"
  by (simp_all add: release_def Let_def ucol_closeElements_def ReleaseStringChars_def
        DeleteGlobalRef_def emit_def split: option.splits)

lemma release_snd:
  "mElements (snd (release w ce b)) = mElements ce"
  "mChars (snd (release w ce b)) = None"
  "mString (snd (release w ce b)) = (case mChars ce of None \<Rightarrow> mString ce | Some c \<Rightarrow> None)"
  by (simp_all add: release_def Let_def split: option.splits)

lemma release_trace:
  "trace (fst (release w ce b)) =
     trace w @ (case mElements ce of Some e \<Rightarrow> if b then [Ev_ucol_closeElements e] else [] | None \<Rightarrow> [])
             @ (case mChars ce of Some c \<Rightarrow> [Ev_ReleaseStringChars c, Ev_DeleteGlobalRef (mString ce)]
                | None \<Rightarrow> [])"
  by (simp add: release_def Let_def ucol_closeElements_def ReleaseStringChars_def
        DeleteGlobalRef_def emit_def split: option.splits)

lemma release_live:
  "live_pins (fst (release w ce b)) =
     (case mChars ce of Some c \<Rightarrow> remove1 (pin_id c) (live_pins w) | None \<Rightarrow> live_pins w)"
  "live_grefs (fst (release w ce b)) =
     (case mChars ce of
        Some c \<Rightarrow> (case mString ce of Some g \<Rightarrow> remove1 (gref_id g) (live_grefs w) | None \<Rightarrow> live_grefs w)
      | None \<Rightarrow> live_grefs w)"
  by (simp_all add: release_def Let_def ucol_closeElements_def ReleaseStringChars_def
        DeleteGlobalRef_def emit_def split: option.splits)

lemma start_pin_fails:
  "\<not> next_succeeds (pin_schedule w) \<Longrightarrow>
   start eng w ce s coll =
     (U_ILLEGAL_ARGUMENT_ERROR,
      emit (Ev_GetStringChars s None)
        ((fst (release w ce False))\<lparr>pin_schedule := tl (pin_schedule w)\<rparr>),
      (snd (release w ce False))\<lparr>mChars := None\<rparr>)"
  using release_fst(1)[of w ce False]
  by (cases "release w ce False") (simp add: start_def GetStringChars_def)

lemmas start_unfold = start_def release_def GetStringChars_def NewGlobalRef_def
  ReleaseStringChars_def DeleteGlobalRef_def GetStringLength_def ucol_openElements_def
  ucol_setText_def ucol_closeElements_def emit_def events_since_def Let_def

lemma bound_run_eq:
  "bound_run =
     (U_ZERO_ERROR,
      world0\<lparr>pin_schedule := [False], next_id := 2, live_pins := [0], live_grefs := [1],
             trace := [Ev_GetStringChars (JString [97, 98]) (Some (Pinned 0 [97, 98])),
                       Ev_NewGlobalRef (JString [97, 98]) (Some (GlobalRef 1)),
                       Ev_ucol_openElements 1 (Pinned 0 [97, 98]) 2 (Some 1) U_ZERO_ERROR]\<rparr>,
      \<lparr>mElements = Some 1, mString = Some (GlobalRef 1), mChars = Some (Pinned 0 [97, 98])\<rparr>)"
  by (simp add: bound_run_def start_def release_def CollationElements_new_def world0_def
        GetStringChars_def NewGlobalRef_def next_succeeds_def emit_def GetStringLength_def
        ucol_openElements_def demo_icu_def Let_def)

lemmas scoped_unfold = ScopedStringChars_def ScopedStringChars_dtor_def ScopedStringChars_size_def
  ScopedUtfChars_def ScopedUtfChars_dtor_def maybeThrowIcuException_def

lemma bound_world_facts:
  "pin_schedule bound_world = [False]"
  "objects bound_world 4096 = Some (snd (snd bound_run))"
  "live_pins bound_world = [0]"
  "live_grefs bound_world = [1]"
  "trace bound_world = trace (fst (snd bound_run))"
  by (simp_all add: bound_world_def bound_run_eq world0_def)

lemma setText_unreadable:
  "\<not> next_succeeds (pin_schedule w) \<Longrightarrow>
   NativeCollation_setText eng w address s =
     Inr (emit (Ev_GetStringChars s None) (w\<lparr>pin_schedule := tl (pin_schedule w)\<rparr>))"
  by (simp add: NativeCollation_setText_def scoped_unfold GetStringChars_def)

subsection \<open>start when the string cannot be pinned\<close>

text \<open>
  C2 does not hold of the code, and the code is at fault. The iterator of \<open>bound_run\<close>
  has engine iterator 1 on the characters of pin 0. A \<open>start\<close> on it whose
  \<open>GetStringChars\<close> returns \<open>NULL\<close> returns \<open>U_ILLEGAL_ARGUMENT_ERROR\<close> after
  releasing pin 0 and deleting global reference 1, and makes no engine call: the object
  keeps engine iterator 1, which still refers to the characters that were just unpinned.
  That is neither the previous state nor that of a newly constructed object, and it is the
  state the comment above the class rules out (the array can be unpinned only after
  \<open>ucol_closeElements\<close>). The entry point \<open>setText\<close>, when its own pin of the same
  string fails, returns before \<open>start\<close> and leaves the object and its pin as they were.
\<close>

theorem failed_rebind_leaves_engine_on_unpinned_chars:
  "snd (snd bound_run) =
     \<lparr>mElements = Some 1, mString = Some (GlobalRef 1), mChars = Some (Pinned 0 [97, 98])\<rparr>
   \<and> live_pins (fst (snd bound_run)) = [0]
   \<and> fst (start demo_icu (fst (snd bound_run)) (snd (snd bound_run)) (JString [99]) 0)
       = U_ILLEGAL_ARGUMENT_ERROR
   \<and> snd (snd (start demo_icu (fst (snd bound_run)) (snd (snd bound_run)) (JString [99]) 0))
       = \<lparr>mElements = Some 1, mString = None, mChars = None\<rparr>
   \<and> live_pins (fst (snd (start demo_icu (fst (snd bound_run)) (snd (snd bound_run))
                             (JString [99]) 0))) = []
   \<and> events_since (fst (snd bound_run))
        (fst (snd (start demo_icu (fst (snd bound_run)) (snd (snd bound_run)) (JString [99]) 0)))
       = [Ev_ReleaseStringChars (Pinned 0 [97, 98]), Ev_DeleteGlobalRef (Some (GlobalRef 1)),
          Ev_GetStringChars (JString [99]) None]
   \<and> snd (snd (start demo_icu (fst (snd bound_run)) (snd (snd bound_run)) (JString [99]) 0))
       \<noteq> snd (snd bound_run)
   \<and> snd (snd (start demo_icu (fst (snd bound_run)) (snd (snd bound_run)) (JString [99]) 0))
       \<noteq> CollationElements_new
   \<and> isl (NativeCollation_setText demo_icu bound_world 4096 (JString [99])) = False
   \<and> objects (projr (NativeCollation_setText demo_icu bound_world 4096 (JString [99]))) 4096
       = Some (snd (snd bound_run))
   \<and> live_pins (projr (NativeCollation_setText demo_icu bound_world 4096 (JString [99]))) = [0]"
proof -
  have a: "snd (snd bound_run) =
     \<lparr>mElements = Some 1, mString = Some (GlobalRef 1), mChars = Some (Pinned 0 [97, 98])\<rparr>"
    "live_pins (fst (snd bound_run)) = [0]"
    by (simp_all add: bound_run_eq world0_def)
  have b: "start demo_icu (fst (snd bound_run)) (snd (snd bound_run)) (JString [99]) 0 =
      (U_ILLEGAL_ARGUMENT_ERROR,
       emit (Ev_GetStringChars (JString [99]) None)
        ((fst (release (fst (snd bound_run)) (snd (snd bound_run)) False))\<lparr>pin_schedule := []\<rparr>),
       (snd (release (fst (snd bound_run)) (snd (snd bound_run)) False))\<lparr>mChars := None\<rparr>)"
    using start_pin_fails [of "fst (snd bound_run)" demo_icu "snd (snd bound_run)" "JString [99]" 0]
    by (simp add: bound_run_eq next_succeeds_def)
  have c: "snd (snd (start demo_icu (fst (snd bound_run)) (snd (snd bound_run)) (JString [99]) 0))
       = \<lparr>mElements = Some 1, mString = None, mChars = None\<rparr>"
    by (simp add: b) (simp add: bound_run_eq release_def Let_def)
  have d: "live_pins (fst (snd (start demo_icu (fst (snd bound_run)) (snd (snd bound_run))
                             (JString [99]) 0))) = []"
    by (simp add: b emit_def release_live) (simp add: bound_run_eq world0_def)
  have e: "events_since (fst (snd bound_run))
        (fst (snd (start demo_icu (fst (snd bound_run)) (snd (snd bound_run)) (JString [99]) 0)))
       = [Ev_ReleaseStringChars (Pinned 0 [97, 98]), Ev_DeleteGlobalRef (Some (GlobalRef 1)),
          Ev_GetStringChars (JString [99]) None]"
    by (simp add: b emit_def release_trace events_since_def) (simp add: bound_run_eq)
  have f: "NativeCollation_setText demo_icu bound_world 4096 (JString [99]) =
             Inr (emit (Ev_GetStringChars (JString [99]) None) (bound_world\<lparr>pin_schedule := []\<rparr>))"
    using setText_unreadable [of bound_world demo_icu 4096 "JString [99]"]
    by (simp add: bound_world_facts next_succeeds_def)
  show ?thesis
    using a b c d e
    by (simp add: f emit_def bound_world_facts CollationElements_new_def)
qed

text \<open>
  C10: a rebind of an iterator that holds a pin, when the new string cannot be pinned,
  returns \<open>U_ILLEGAL_ARGUMENT_ERROR\<close> and ends with no pin and no global reference.
  The call's events are, in this order, the release of the old pin, the deletion of the old
  global reference, and the failed \<open>GetStringChars\<close>: the old binding was given up
  before the new one was tried.
\<close>

theorem failed_rebind_drops_old_pin:
  assumes "mChars ce = Some c" and "\<not> next_succeeds (pin_schedule w)"
  shows "fst (start eng w ce s coll) = U_ILLEGAL_ARGUMENT_ERROR
       \<and> mChars (snd (snd (start eng w ce s coll))) = None
       \<and> mString (snd (snd (start eng w ce s coll))) = None
       \<and> events_since w (fst (snd (start eng w ce s coll))) =
           [Ev_ReleaseStringChars c, Ev_DeleteGlobalRef (mString ce), Ev_GetStringChars s None]
       \<and> live_pins (fst (snd (start eng w ce s coll))) = remove1 (pin_id c) (live_pins w)
       \<and> live_grefs (fst (snd (start eng w ce s coll))) =
           (case mString ce of Some g \<Rightarrow> remove1 (gref_id g) (live_grefs w) | None \<Rightarrow> live_grefs w)"
  using assms
  by (simp add: start_pin_fails release_snd release_trace release_live emit_def events_since_def
        split: option.splits)

theorem failed_rebind_drops_old_pin_witness:
  "mChars (snd (snd bound_run)) = Some (Pinned 0 [97, 98])
   \<and> \<not> next_succeeds (pin_schedule (fst (snd bound_run)))
   \<and> fst (start demo_icu (fst (snd bound_run)) (snd (snd bound_run)) (JString [99]) 0)
       = U_ILLEGAL_ARGUMENT_ERROR
   \<and> mChars (snd (snd (start demo_icu (fst (snd bound_run)) (snd (snd bound_run)) (JString [99]) 0)))
       = None
   \<and> live_pins (fst (snd (start demo_icu (fst (snd bound_run)) (snd (snd bound_run)) (JString [99]) 0)))
       = []"
  using failed_rebind_drops_old_pin [of "snd (snd bound_run)" "Pinned 0 [97, 98]"
          "fst (snd bound_run)" demo_icu "JString [99]" 0]
  by (simp add: bound_run_eq next_succeeds_def)

subsection \<open>start when the string is pinned\<close>

text \<open>
  C8: when the pin succeeds, an object without an engine iterator gets the one that
  \<open>ucol_openElements\<close> returns for the supplied collator and the pinned text, and that is
  the call's only engine call; an object that has an engine iterator keeps it, and the
  call's only engine call is \<open>ucol_setText\<close> on it with the pinned text. In both cases
  the status is the engine's.
\<close>

theorem start_opens_or_repositions:
  assumes "next_succeeds (pin_schedule w)"
  shows "mChars (snd (snd (start eng w ce s coll))) = Some (Pinned (next_id w) (string_chars s))
       \<and> (mElements ce = None \<longrightarrow>
            (mElements (snd (snd (start eng w ce s coll))), fst (start eng w ce s coll)) =
               icu_openElements eng coll (string_chars s) (length (string_chars s))
          \<and> filter is_engine_call (events_since w (fst (snd (start eng w ce s coll)))) =
               [Ev_ucol_openElements coll (Pinned (next_id w) (string_chars s))
                  (length (string_chars s))
                  (mElements (snd (snd (start eng w ce s coll)))) (fst (start eng w ce s coll))])
       \<and> (\<forall>e. mElements ce = Some e \<longrightarrow>
            mElements (snd (snd (start eng w ce s coll))) = Some e
          \<and> fst (start eng w ce s coll) = icu_setText eng e (string_chars s) (length (string_chars s))
          \<and> filter is_engine_call (events_since w (fst (snd (start eng w ce s coll)))) =
               [Ev_ucol_setText e (Pinned (next_id w) (string_chars s)) (length (string_chars s))
                  (fst (start eng w ce s coll))])"
  using assms
  by (cases "mChars ce"; cases "mElements ce"; cases "mString ce";
      cases "next_succeeds (gref_schedule w)")
     (simp_all add: start_unfold split_beta)

theorem start_opens_or_repositions_witness:
  "next_succeeds (pin_schedule world0)
   \<and> mElements CollationElements_new = None
   \<and> filter is_engine_call
         (events_since world0
            (fst (snd (start demo_icu world0 CollationElements_new (JString [97]) 1)))) =
       [Ev_ucol_openElements 1 (Pinned 0 [97]) 1 (Some 1) U_ZERO_ERROR]
   \<and> mElements (snd (snd (start demo_icu world0 CollationElements_new (JString [97]) 1))) = Some 1
   \<and> filter is_engine_call
         (events_since world0
            (fst (snd (start demo_icu world0
                        \<lparr>mElements = Some 5, mString = None, mChars = None\<rparr> (JString [99]) 0)))) =
       [Ev_ucol_setText 5 (Pinned 0 [99]) 1 U_ZERO_ERROR]
   \<and> mElements (snd (snd (start demo_icu world0
                        \<lparr>mElements = Some 5, mString = None, mChars = None\<rparr> (JString [99]) 0)))
       = Some 5"
  using start_opens_or_repositions [of world0 demo_icu CollationElements_new "JString [97]" 1]
        start_opens_or_repositions [of world0 demo_icu
          "\<lparr>mElements = Some 5, mString = None, mChars = None\<rparr>" "JString [99]" 0]
  by (simp add: world0_def demo_icu_def next_succeeds_def CollationElements_new_def)

subsection \<open>What the entry points return for a string that cannot be read\<close>

text \<open>
  C9: the failure values of the handle-creating entry points differ. With the string
  unreadable, \<open>openCollator\<close> returns 0, \<open>openCollatorFromRules\<close> returns -1 and
  \<open>getCollationElementIterator\<close> returns -1. With the source readable,
  \<open>getCollationElementIterator\<close> returns 0 when \<open>start\<close> ends with a status other
  than \<open>U_ZERO_ERROR\<close> (its own second pin failed, or the engine reported one), and the
  address of the new object otherwise.
\<close>

theorem failure_sentinels_differ:
  "(\<not> next_succeeds (pin_schedule w) \<longrightarrow>
       fst (NativeCollation_openCollator eng w javaLocaleName) = 0
     \<and> fst (NativeCollation_openCollatorFromRules eng w javaRules mode strength) = - 1
     \<and> fst (NativeCollation_getCollationElementIterator eng w address javaSource) = - 1)
   \<and> (next_succeeds (pin_schedule w) \<and> \<not> next_succeeds (tl (pin_schedule w)) \<longrightarrow>
       fst (NativeCollation_getCollationElementIterator eng w address javaSource) = 0)
   \<and> (next_succeeds (pin_schedule w) \<and> next_succeeds (tl (pin_schedule w))
       \<and> snd (icu_openElements eng address (string_chars javaSource)
                 (length (string_chars javaSource))) \<noteq> U_ZERO_ERROR \<longrightarrow>
       fst (NativeCollation_getCollationElementIterator eng w address javaSource) = 0)
   \<and> (next_succeeds (pin_schedule w) \<and> next_succeeds (tl (pin_schedule w))
       \<and> snd (icu_openElements eng address (string_chars javaSource)
                 (length (string_chars javaSource))) = U_ZERO_ERROR \<longrightarrow>
       fst (NativeCollation_getCollationElementIterator eng w address javaSource) = next_object w)
   \<and> (- 1 :: jlong) \<noteq> 0"
  by (cases "next_succeeds (gref_schedule w)")
     (simp_all add: NativeCollation_openCollator_def NativeCollation_openCollatorFromRules_def
        NativeCollation_getCollationElementIterator_def scoped_unfold start_unfold
        new_CollationElements_def delete_CollationElements_def CollationElements_new_def
        split_beta)

theorem failure_sentinels_differ_witness:
  "\<not> next_succeeds (pin_schedule (world0\<lparr>pin_schedule := [False]\<rparr>))
   \<and> fst (NativeCollation_openCollator demo_icu (world0\<lparr>pin_schedule := [False]\<rparr>)
            (JString [101, 110])) = 0
   \<and> fst (NativeCollation_openCollatorFromRules demo_icu (world0\<lparr>pin_schedule := [False]\<rparr>)
            (JString [38, 97, 60, 98]) 16 2) = - 1
   \<and> fst (NativeCollation_getCollationElementIterator demo_icu (world0\<lparr>pin_schedule := [False]\<rparr>)
            1 (JString [97])) = - 1
   \<and> fst (NativeCollation_getCollationElementIterator demo_icu
            (world0\<lparr>pin_schedule := [True, False]\<rparr>) 1 (JString [97])) = 0
   \<and> snd (icu_openElements demo_icu 0 [97] 1) \<noteq> U_ZERO_ERROR
   \<and> fst (NativeCollation_getCollationElementIterator demo_icu world0 0 (JString [97])) = 0
   \<and> fst (NativeCollation_getCollationElementIterator demo_icu world0 1 (JString [97])) = 4096"
  using failure_sentinels_differ [of "world0\<lparr>pin_schedule := [False]\<rparr>" demo_icu
          "JString [101, 110]" "JString [38, 97, 60, 98]" 16 2 1 "JString [97]"]
        failure_sentinels_differ [of "world0\<lparr>pin_schedule := [True, False]\<rparr>" demo_icu
          "JString [101, 110]" "JString [38, 97, 60, 98]" 16 2 1 "JString [97]"]
        failure_sentinels_differ [of world0 demo_icu
          "JString [101, 110]" "JString [38, 97, 60, 98]" 16 2 0 "JString [97]"]
        failure_sentinels_differ [of world0 demo_icu
          "JString [101, 110]" "JString [38, 97, 60, 98]" 16 2 1 "JString [97]"]
  by (simp add: world0_def demo_icu_def next_succeeds_def)




subsection \<open>One pin per iterator\<close>

lemma audit_append:
  "audit h (xs @ ys) = (case audit h xs of None \<Rightarrow> None | Some h' \<Rightarrow> audit h' ys)"
  by (induction xs arbitrary: h) (auto split: option.splits)

lemma audit_take: "audit h xs = Some h' \<Longrightarrow> audit h (take n xs) \<noteq> None"
  using audit_append [of h "take n xs" "drop n xs"] by (auto split: option.splits)

lemma release_step:
  assumes "mChars ce = None \<longrightarrow> mString ce = None"
  shows "step_ok w ce (fst (release w ce b)) (snd (release w ce b))"
  using assms
  by (cases "mChars ce"; cases "mElements ce"; cases "mString ce"; cases b)
     (simp_all add: step_ok_def held_ids_def start_unfold)

lemma start_step:
  assumes "mChars ce = None \<longrightarrow> mString ce = None"
  shows "step_ok w ce (fst (snd (start eng w ce s c))) (snd (snd (start eng w ce s c)))"
  using assms
  by (cases "mChars ce"; cases "mElements ce"; cases "mString ce";
      cases "next_succeeds (pin_schedule w)"; cases "next_succeeds (gref_schedule w)")
     (simp_all add: step_ok_def held_ids_def start_unfold split_beta)

lemma disciplined_step:
  assumes "disciplined w0 (w, ce)" and "step_ok w ce w' ce'"
  shows "disciplined w0 (w', ce')"
proof -
  from assms(1) obtain evs where evs: "trace w = trace w0 @ evs"
      "audit (None, None) evs = Some (mChars ce, mString ce)"
    and lp: "live_pins w = fst (held_ids ce) @ live_pins w0"
    and lg: "live_grefs w = snd (held_ids ce) @ live_grefs w0"
    by (auto simp: disciplined_def)
  from assms(2) obtain new where new: "trace w' = trace w @ new"
      "audit (mChars ce, mString ce) new = Some (mChars ce', mString ce')"
    and nn: "mChars ce' = None \<longrightarrow> mString ce' = None"
    and lp': "live_pins w' = fst (held_ids ce') @ live_pins w0"
    and lg': "live_grefs w' = snd (held_ids ce') @ live_grefs w0"
    using lp lg by (auto simp: step_ok_def)
  have "trace w' = trace w0 @ (evs @ new)" using evs(1) new(1) by simp
  moreover have "audit (None, None) (evs @ new) = Some (mChars ce', mString ce')"
    using evs(2) new(2) by (simp add: audit_append)
  ultimately show ?thesis using nn lp' lg' unfolding disciplined_def by fastforce
qed

lemma disciplined_apply_op:
  assumes "disciplined w0 st"
  shows "disciplined w0 (apply_op eng st op)"
proof -
  obtain w ce where st: "st = (w, ce)" by (cases st)
  have nn: "mChars ce = None \<longrightarrow> mString ce = None"
    using assms st by (simp add: disciplined_def)
  show ?thesis
  proof (cases op)
    case (Op_start s c)
    then show ?thesis
      using disciplined_step [OF assms [unfolded st] start_step [OF nn, of w eng s c]] st
      by simp
  next
    case (Op_setText s)
    then show ?thesis
      using disciplined_step [OF assms [unfolded st] start_step [OF nn, of w eng s 0]] st
      by simp
  next
    case Op_close
    then show ?thesis
      using disciplined_step [OF assms [unfolded st] release_step [OF nn, of w True]] st
      by simp
  qed
qed

lemma disciplined_run:
  "disciplined w0 st \<Longrightarrow> disciplined w0 (run_ops eng st ops)"
  unfolding run_ops_def
  by (induction ops arbitrary: st) (simp_all add: disciplined_apply_op)

lemma disciplined_new: "disciplined w (w, CollationElements_new)"
  by (simp add: disciplined_def CollationElements_new_def held_ids_def)

lemma disciplined_events:
  assumes "disciplined w0 st"
  shows "audit (None, None) (events_since w0 (fst st)) = Some (mChars (snd st), mString (snd st))"
  using assms by (auto simp: disciplined_def events_since_def)

lemma run_ops_snoc: "run_ops eng st (ops @ [op]) = apply_op eng (run_ops eng st ops) op"
  by (simp add: run_ops_def)

text \<open>
  C1: for every sequence of start, setText and close operations on a newly constructed
  iterator, in every environment and with every engine, the audit accepts the events of
  the run and every prefix of them: a pin (and a global reference) is obtained only when
  the iterator holds none, so the previous one was released first and no two are ever held
  together. What is held at the end is what \<open>mChars\<close> and \<open>mString\<close> point to, and
  the environment's live pins and references are those it had plus these. A close after
  any such sequence leaves the iterator with no pin and no global reference and the
  environment's live pins and references as they were at the beginning.
\<close>

theorem one_pin_at_any_time:
  "audit (None, None) (events_since w (fst (run_ops eng (w, CollationElements_new) ops))) =
     Some (mChars (snd (run_ops eng (w, CollationElements_new) ops)),
           mString (snd (run_ops eng (w, CollationElements_new) ops)))
   \<and> (\<forall>n. audit (None, None)
            (take n (events_since w (fst (run_ops eng (w, CollationElements_new) ops)))) \<noteq> None)
   \<and> live_pins (fst (run_ops eng (w, CollationElements_new) ops)) =
       fst (held_ids (snd (run_ops eng (w, CollationElements_new) ops))) @ live_pins w
   \<and> live_grefs (fst (run_ops eng (w, CollationElements_new) ops)) =
       snd (held_ids (snd (run_ops eng (w, CollationElements_new) ops))) @ live_grefs w
   \<and> mChars (snd (run_ops eng (w, CollationElements_new) (ops @ [Op_close]))) = None
   \<and> mString (snd (run_ops eng (w, CollationElements_new) (ops @ [Op_close]))) = None
   \<and> live_pins (fst (run_ops eng (w, CollationElements_new) (ops @ [Op_close]))) = live_pins w
   \<and> live_grefs (fst (run_ops eng (w, CollationElements_new) (ops @ [Op_close]))) = live_grefs w"
proof -
  let ?st = "run_ops eng (w, CollationElements_new) ops"
  let ?cl = "run_ops eng (w, CollationElements_new) (ops @ [Op_close])"
  have d: "disciplined w ?st" by (rule disciplined_run [OF disciplined_new])
  have dc: "disciplined w ?cl" by (rule disciplined_run [OF disciplined_new])
  have a: "audit (None, None) (events_since w (fst ?st)) = Some (mChars (snd ?st), mString (snd ?st))"
    by (rule disciplined_events [OF d])
  have cl: "?cl = release (fst ?st) (snd ?st) True"
    by (cases ?st) (simp add: run_ops_snoc)
  have c1: "mChars (snd ?cl) = None" by (simp add: cl release_snd)
  then have c2: "mString (snd ?cl) = None" using dc by (simp add: disciplined_def)
  show ?thesis
    using a audit_take [OF a] d dc c1 c2
    by (simp add: disciplined_def held_ids_def)
qed

theorem one_pin_at_any_time_witness:
  "events_since world0
     (fst (run_ops demo_icu (world0, CollationElements_new)
             [Op_start (JString [97]) 1, Op_setText (JString [98])])) =
     [Ev_GetStringChars (JString [97]) (Some (Pinned 0 [97])),
      Ev_NewGlobalRef (JString [97]) (Some (GlobalRef 1)),
      Ev_ucol_openElements 1 (Pinned 0 [97]) 1 (Some 1) U_ZERO_ERROR,
      Ev_ReleaseStringChars (Pinned 0 [97]),
      Ev_DeleteGlobalRef (Some (GlobalRef 1)),
      Ev_GetStringChars (JString [98]) (Some (Pinned 2 [98])),
      Ev_NewGlobalRef (JString [98]) (Some (GlobalRef 3)),
      Ev_ucol_setText 1 (Pinned 2 [98]) 1 U_ZERO_ERROR]
   \<and> audit (None, None)
        (events_since world0
           (fst (run_ops demo_icu (world0, CollationElements_new)
                   [Op_start (JString [97]) 1, Op_setText (JString [98])]))) =
       Some (Some (Pinned 2 [98]), Some (GlobalRef 3))
   \<and> live_pins (fst (run_ops demo_icu (world0, CollationElements_new)
                        [Op_start (JString [97]) 1, Op_setText (JString [98])])) = [2]
   \<and> live_pins (fst (run_ops demo_icu (world0, CollationElements_new)
                        ([Op_start (JString [97]) 1, Op_setText (JString [98])] @ [Op_close]))) = []"
  using one_pin_at_any_time [of world0 demo_icu "[Op_start (JString [97]) 1, Op_setText (JString [98])]"]
  by (simp add: run_ops_def start_unfold world0_def demo_icu_def next_succeeds_def
        CollationElements_new_def held_ids_def split_beta)

subsection \<open>Closing an iterator\<close>

lemma opened_facts:
  "fst opened = 4096"
  "objects (snd opened) 4096 = Some opened_object"
  "live_pins (snd opened) = [1]"
  "live_grefs (snd opened) = [2]"
  "trace (snd opened) =
     [Ev_GetStringChars (JString [97, 98]) (Some (Pinned 0 [97, 98])),
      Ev_new_CollationElements 4096,
      Ev_GetStringChars (JString [97, 98]) (Some (Pinned 1 [97, 98])),
      Ev_NewGlobalRef (JString [97, 98]) (Some (GlobalRef 2)),
      Ev_ucol_openElements 1 (Pinned 1 [97, 98]) 2 (Some 1) U_ZERO_ERROR,
      Ev_maybeThrowIcuException ''ucol_openElements'' U_ZERO_ERROR,
      Ev_ReleaseStringChars (Pinned 0 [97, 98])]"
  by (simp_all add: opened_def opened_object_def NativeCollation_getCollationElementIterator_def
        scoped_unfold start_unfold new_CollationElements_def CollationElements_new_def
        world0_def demo_icu_def next_succeeds_def)

lemma closed_once_eq:
  "closed_once =
     Inr (delete_CollationElements (fst (release (snd opened) opened_object True)) 4096)"
  by (simp add: closed_once_def opened_facts NativeCollation_closeElements_def split_beta)

text \<open>
  C3, as the spec states it, fails: close is not idempotent. The iterator opened on
  \<open>ab\<close> is closed once without fault; the object is then deleted, and a second close of
  the same handle dereferences an address that holds no object. Nor is \<open>release\<close> with
  \<open>closeCollator\<close> idempotent on an object that is still there: it does not clear
  \<open>mElements\<close>, so two releases call \<open>ucol_closeElements\<close> on the same engine
  iterator twice.
\<close>

theorem close_twice_counterexample:
  "objects (snd opened) (fst opened) = Some opened_object
   \<and> isl (NativeCollation_closeElements (snd opened) (fst opened)) = False
   \<and> NativeCollation_closeElements (projr closed_once) (fst opened) = Inl Dangling_handle
   \<and> filter is_engine_call
        (events_since (snd opened)
           (fst (release (fst (release (snd opened) opened_object True))
                         (snd (release (snd opened) opened_object True)) True))) =
       [Ev_ucol_closeElements 1, Ev_ucol_closeElements 1]"
proof -
  have 1: "objects (snd opened) (fst opened) = Some opened_object"
    by (simp add: opened_facts)
  have 2: "isl (NativeCollation_closeElements (snd opened) (fst opened)) = False"
    using closed_once_eq by (simp add: closed_once_def)
  have 3: "NativeCollation_closeElements (projr closed_once) (fst opened) = Inl Dangling_handle"
    by (simp add: closed_once_eq opened_facts NativeCollation_closeElements_def
          delete_CollationElements_def emit_def release_fst)
  have 4: "filter is_engine_call
        (events_since (snd opened)
           (fst (release (fst (release (snd opened) opened_object True))
                         (snd (release (snd opened) opened_object True)) True))) =
       [Ev_ucol_closeElements 1, Ev_ucol_closeElements 1]"
    by (simp add: events_since_def release_trace release_snd opened_facts opened_object_def)
  show ?thesis using 1 2 3 4 by simp
qed

text \<open>
  C3, amended: close of a handle that holds an object calls \<open>ucol_closeElements\<close> once
  if the object has an engine iterator, releases the pin and deletes the global reference
  once if the object has a pin, and then deletes the object; on an object that was never
  bound it only deletes the object. After it the handle holds no object, and a second close
  of the same handle is a dereference of a deleted object. Of \<open>release\<close> alone, the part
  that releases the pin is idempotent: \<open>mChars\<close> and \<open>mString\<close> are cleared, and a
  second release obtains nothing.
\<close>

theorem closeElements_releases_then_deletes:
  assumes "objects w address = Some ce"
  shows "NativeCollation_closeElements w address =
           Inr (delete_CollationElements (fst (release w ce True)) address)
       \<and> events_since w (delete_CollationElements (fst (release w ce True)) address) =
            (case mElements ce of Some e \<Rightarrow> [Ev_ucol_closeElements e] | None \<Rightarrow> [])
            @ (case mChars ce of
                 Some c \<Rightarrow> [Ev_ReleaseStringChars c, Ev_DeleteGlobalRef (mString ce)]
               | None \<Rightarrow> [])
            @ [Ev_delete_CollationElements address]
       \<and> live_pins (delete_CollationElements (fst (release w ce True)) address) =
            (case mChars ce of Some c \<Rightarrow> remove1 (pin_id c) (live_pins w) | None \<Rightarrow> live_pins w)
       \<and> objects (delete_CollationElements (fst (release w ce True)) address) address = None
       \<and> NativeCollation_closeElements
            (delete_CollationElements (fst (release w ce True)) address) address
          = Inl Dangling_handle
       \<and> (mElements ce = None \<and> mChars ce = None \<longrightarrow>
            events_since w (delete_CollationElements (fst (release w ce True)) address) =
              [Ev_delete_CollationElements address])
       \<and> mChars (snd (release w ce True)) = None
       \<and> mString (snd (release w ce True)) = (case mChars ce of Some c \<Rightarrow> None | None \<Rightarrow> mString ce)
       \<and> filter acquires
            (events_since w (fst (release (fst (release w ce True)) (snd (release w ce True)) True)))
          = []"
  using assms
  by (cases "mChars ce"; cases "mElements ce"; cases "mString ce")
     (simp_all add: NativeCollation_closeElements_def delete_CollationElements_def
        start_unfold split_beta)

theorem closeElements_releases_then_deletes_witness:
  "objects (snd opened) (fst opened) = Some opened_object
   \<and> NativeCollation_closeElements (snd opened) (fst opened) =
       Inr (delete_CollationElements (fst (release (snd opened) opened_object True)) (fst opened))
   \<and> events_since (snd opened)
        (delete_CollationElements (fst (release (snd opened) opened_object True)) (fst opened)) =
       [Ev_ucol_closeElements 1, Ev_ReleaseStringChars (Pinned 1 [97, 98]),
        Ev_DeleteGlobalRef (Some (GlobalRef 2)), Ev_delete_CollationElements 4096]
   \<and> live_pins
        (delete_CollationElements (fst (release (snd opened) opened_object True)) (fst opened)) = []
   \<and> NativeCollation_closeElements
        (delete_CollationElements (fst (release (snd opened) opened_object True)) (fst opened))
        (fst opened) = Inl Dangling_handle
   \<and> objects (snd (new_CollationElements world0)) 4096 = Some CollationElements_new
   \<and> NativeCollation_closeElements (snd (new_CollationElements world0)) 4096 =
       Inr (delete_CollationElements
              (fst (release (snd (new_CollationElements world0)) CollationElements_new True)) 4096)
   \<and> events_since (snd (new_CollationElements world0))
        (delete_CollationElements
           (fst (release (snd (new_CollationElements world0)) CollationElements_new True)) 4096) =
       [Ev_delete_CollationElements 4096]"
  using closeElements_releases_then_deletes [of "snd opened" "fst opened" opened_object]
        closeElements_releases_then_deletes [of "snd (new_CollationElements world0)" 4096
          CollationElements_new]
  by (simp add: opened_facts opened_object_def new_CollationElements_def world0_def emit_def
        CollationElements_new_def)

subsection \<open>getSortKey\<close>

lemma length_fresh_bytes: "length (fresh_bytes w n) = n"
  by (simp add: fresh_bytes_def)

lemmas sortkey_unfold = NativeCollation_getSortKey_def ucol_getSortKey_def new_bytes_def
  NewByteArray_from_def scoped_unfold GetStringChars_def ReleaseStringChars_def emit_def
  events_since_def Let_def split_beta

lemma getSortKey_unreadable:
  "\<not> next_succeeds (pin_schedule w) \<Longrightarrow>
   fst (NativeCollation_getSortKey eng w address s) = None
   \<and> List.map_filter encode_cap (events_since w (snd (NativeCollation_getSortKey eng w address s))) = []"
  by (simp add: sortkey_unfold)

lemma getSortKey_small:
  assumes "next_succeeds (pin_schedule w)"
    and "length (sortKeyBytes eng address (string_chars s)) \<le> 127"
  shows "fst (NativeCollation_getSortKey eng w address s) =
           (if sortKeyBytes eng address (string_chars s) = [] then None
            else Some (sortKeyBytes eng address (string_chars s)))"
    and "List.map_filter encode_cap
           (events_since w (snd (NativeCollation_getSortKey eng w address s))) = [127]"
    and "List.map_filter heap_alloc
           (events_since w (snd (NativeCollation_getSortKey eng w address s))) = []"
  using assms
  by (simp_all add: sortkey_unfold length_fresh_bytes)

lemma getSortKey_large:
  assumes "next_succeeds (pin_schedule w)"
    and "127 < length (sortKeyBytes eng address (string_chars s))"
  shows "fst (NativeCollation_getSortKey eng w address s) =
           Some (sortKeyBytes eng address (string_chars s))"
    and "List.map_filter encode_cap
           (events_since w (snd (NativeCollation_getSortKey eng w address s))) =
           [127, length (sortKeyBytes eng address (string_chars s))]"
    and "List.map_filter heap_alloc
           (events_since w (snd (NativeCollation_getSortKey eng w address s))) =
           [length (sortKeyBytes eng address (string_chars s)) + 1]"
  using assms
  by (auto simp add: sortkey_unfold length_fresh_bytes)


lemma getSortKey_result:
  "fst (NativeCollation_getSortKey eng w address s) =
     (if next_succeeds (pin_schedule w) \<and> sortKeyBytes eng address (string_chars s) \<noteq> []
      then Some (sortKeyBytes eng address (string_chars s)) else None)"
proof (cases "next_succeeds (pin_schedule w)")
  case False
  then show ?thesis using getSortKey_unreadable [of w eng address s] by simp
next
  case True
  show ?thesis
  proof (cases "length (sortKeyBytes eng address (string_chars s)) \<le> 127")
    case small: True
    show ?thesis using getSortKey_small(1) [OF True small] True by simp
  next
    case large: False
    then have "127 < length (sortKeyBytes eng address (string_chars s))" by simp
    from getSortKey_large(1) [OF True this] this True show ?thesis by auto
  qed
qed




text \<open>
  C6, as the spec states it, fails: \<open>NULL\<close> is also what \<open>getSortKey\<close> returns for
  a source that cannot be read. For the text \<open>a\<close>, whose key has two bytes, the result
  is \<open>NULL\<close> when the pin fails, the same value as for the empty text with its empty
  key.
\<close>

theorem getSortKey_null_counterexample:
  "fst (NativeCollation_getSortKey demo_icu (world0\<lparr>pin_schedule := [False]\<rparr>) 1 (JString [97]))
     = None
   \<and> length (sortKeyBytes demo_icu 1 (string_chars (JString [97]))) = 2
   \<and> fst (NativeCollation_getSortKey demo_icu world0 1 (JString [97])) = Some [0, 97]
   \<and> fst (NativeCollation_getSortKey demo_icu world0 1 (JString [])) = None"
  by (simp add: getSortKey_result world0_def next_succeeds_def demo_icu_def demo_key_def)

text \<open>
  C6, amended: for a readable source, \<open>getSortKey\<close> returns \<open>NULL\<close> exactly when
  the length the encoder returns is zero, and otherwise the whole key, which is not empty;
  for a source that cannot be read it returns \<open>NULL\<close> as well, without calling the
  encoder.
\<close>

theorem getSortKey_null_cases:
  "(next_succeeds (pin_schedule w) \<longrightarrow>
      (fst (NativeCollation_getSortKey eng w address s) = None
         \<longleftrightarrow> length (sortKeyBytes eng address (string_chars s)) = 0)
    \<and> (length (sortKeyBytes eng address (string_chars s)) \<noteq> 0 \<longrightarrow>
         fst (NativeCollation_getSortKey eng w address s) =
           Some (sortKeyBytes eng address (string_chars s)))
    \<and> fst (NativeCollation_getSortKey eng w address s) \<noteq> Some [])
   \<and> (\<not> next_succeeds (pin_schedule w) \<longrightarrow>
      fst (NativeCollation_getSortKey eng w address s) = None
    \<and> List.map_filter encode_cap
         (events_since w (snd (NativeCollation_getSortKey eng w address s))) = [])"
  using getSortKey_unreadable [of w eng address s]
  by (auto simp add: getSortKey_result)

theorem getSortKey_null_cases_witness:
  "next_succeeds (pin_schedule world0)
   \<and> fst (NativeCollation_getSortKey demo_icu world0 1 (JString [])) = None
   \<and> length (sortKeyBytes demo_icu 1 (string_chars (JString []))) = 0
   \<and> length (sortKeyBytes demo_icu 1 (string_chars (JString [97]))) \<noteq> 0
   \<and> fst (NativeCollation_getSortKey demo_icu world0 1 (JString [97])) = Some [0, 97]
   \<and> \<not> next_succeeds (pin_schedule (world0\<lparr>pin_schedule := [False]\<rparr>))
   \<and> fst (NativeCollation_getSortKey demo_icu (world0\<lparr>pin_schedule := [False]\<rparr>) 1 (JString [97]))
       = None"
  using getSortKey_null_cases [of world0 demo_icu 1 "JString []"]
        getSortKey_null_cases [of world0 demo_icu 1 "JString [97]"]
        getSortKey_null_cases [of "world0\<lparr>pin_schedule := [False]\<rparr>" demo_icu 1 "JString [97]"]
  by (simp add: world0_def next_succeeds_def demo_icu_def demo_key_def)

lemma compare_readable:
  assumes "next_succeeds (pin_schedule w)" and "next_succeeds (tl (pin_schedule w))"
  shows "fst (NativeCollation_compare eng w address l r) =
           result_jint (icu_strcoll eng address (string_chars l) (string_chars r))"
  using assms
  by (simp add: NativeCollation_compare_def ucol_strcoll_def scoped_unfold GetStringChars_def
        emit_def Let_def split_beta)

text \<open>
  C4: let the engine's sort keys of two texts order as its \<open>ucol_strcoll\<close> does
  (\<open>sort_key_orders_as_strcoll\<close>, what the spec asks of a sort key). If
  \<open>getSortKey\<close> succeeds on both strings, then comparing the two returned byte arrays
  byte by byte gives the ordering that \<open>compare\<close> returns for the two strings when it
  can read them: the entry points neither cut a key nor change the engine's answer.
\<close>

theorem sort_keys_order_as_compare:
  assumes "sort_key_orders_as_strcoll eng address (string_chars a) (string_chars b)"
    and "fst (NativeCollation_getSortKey eng w1 address a) = Some ka"
    and "fst (NativeCollation_getSortKey eng w2 address b) = Some kb"
    and "next_succeeds (pin_schedule w3)" and "next_succeeds (tl (pin_schedule w3))"
  shows "fst (NativeCollation_compare eng w3 address a b) = result_jint (bytes_compare ka kb)"
proof -
  have ka: "ka = sortKeyBytes eng address (string_chars a)"
    using assms(2) by (simp add: getSortKey_result split: if_splits)
  have kb: "kb = sortKeyBytes eng address (string_chars b)"
    using assms(3) by (simp add: getSortKey_result split: if_splits)
  show ?thesis
    using assms(1) by (simp add: compare_readable [OF assms(4,5)] ka kb
        sort_key_orders_as_strcoll_def)
qed

theorem sort_keys_order_as_compare_witness:
  "sort_key_orders_as_strcoll demo_icu 1 (string_chars (JString [97])) (string_chars (JString [97, 98]))
   \<and> fst (NativeCollation_getSortKey demo_icu world0 1 (JString [97])) = Some [0, 97]
   \<and> fst (NativeCollation_getSortKey demo_icu world0 1 (JString [97, 98])) = Some [0, 97, 0, 98]
   \<and> next_succeeds (pin_schedule world0) \<and> next_succeeds (tl (pin_schedule world0))
   \<and> fst (NativeCollation_compare demo_icu world0 1 (JString [97]) (JString [97, 98])) = - 1
   \<and> result_jint (bytes_compare [0, 97] [0, 97, 0, 98]) = - 1"
proof -
  have c: "sort_key_orders_as_strcoll demo_icu 1 (string_chars (JString [97]))
             (string_chars (JString [97, 98]))"
    by (simp add: sort_key_orders_as_strcoll_def demo_icu_def demo_key_def)
  have ka: "fst (NativeCollation_getSortKey demo_icu world0 1 (JString [97])) = Some [0, 97]"
    by (simp add: getSortKey_result world0_def next_succeeds_def demo_icu_def demo_key_def)
  have kb: "fst (NativeCollation_getSortKey demo_icu world0 1 (JString [97, 98]))
              = Some [0, 97, 0, 98]"
    by (simp add: getSortKey_result world0_def next_succeeds_def demo_icu_def demo_key_def)
  have p: "next_succeeds (pin_schedule world0)" "next_succeeds (tl (pin_schedule world0))"
    by (simp_all add: world0_def next_succeeds_def)
  show ?thesis
    using sort_keys_order_as_compare [OF c ka kb p] c ka kb p by simp
qed

end
